theory Spec2Isabelle
  imports
    Complex_Main
    "HOL-Library.Char_ord"
    "HOL-Library.List_Lexorder"
    "HOL-Library.Product_Lexorder"
begin

section \<open>Column values\<close>

text \<open>
  A Float64 cell is a finite number or one of the IEEE special values. The finite part is
  modelled by the reals: every sum, mean and quotient below is exact, so statements that
  the specification makes "within floating tolerance" are statements about the exact
  values here. Rounding is not modelled: the mean of equal values is that value here,
  while the engine's mean of them may differ from it in the last bit. No statement below
  rests on two computed values being exactly equal in the engine. A nullable column is an
  \<open>option\<close>.
\<close>

datatype fl = Fin real | PInf | NInf | NaN

datatype error = CastError

fun is_infinite :: "fl \<Rightarrow> bool" where
  "is_infinite PInf = True"
| "is_infinite NInf = True"
| "is_infinite _ = False"

fun fill_nan :: "real \<Rightarrow> fl \<Rightarrow> fl" where
  "fill_nan v NaN = Fin v"
| "fill_nan v x = x"

fun fill_null :: "'a \<Rightarrow> 'a option \<Rightarrow> 'a option" where
  "fill_null v None = Some v"
| "fill_null v (Some x) = Some x"

text \<open>Division of a float cell by a positive literal.\<close>

fun fl_div_lit :: "fl \<Rightarrow> real \<Rightarrow> fl" where
  "fl_div_lit (Fin x) c = Fin (x / c)"
| "fl_div_lit x c = x"

text \<open>
  Division of two finite floats, the divisor being a non-negative quantity (a count or a
  square root), so that a zero divisor is \<open>+0.0\<close>.
\<close>

definition fl_div :: "real \<Rightarrow> real \<Rightarrow> fl" where
  "fl_div a b =
     (if b \<noteq> 0 then Fin (a / b)
      else if 0 < a then PInf
      else if a < 0 then NInf
      else NaN)"

text \<open>
  \<open>round(0)\<close>: to the nearest integer, halves away from zero. Later versions of the
  engine round halves to even; the two agree except at an exact half, and no statement
  below involves one.
\<close>

definition round_half_away :: "real \<Rightarrow> int" where
  "round_half_away x = (if 0 \<le> x then \<lfloor>x + 1 / 2\<rfloor> else - \<lfloor>- x + 1 / 2\<rfloor>)"

fun round0 :: "fl \<Rightarrow> fl" where
  "round0 (Fin x) = Fin (of_int (round_half_away x))"
| "round0 x = x"

text \<open>
  \<open>cast(pl.Int32)\<close> is a strict cast: a null stays null, a finite value is truncated
  towards zero and must fit 32 bits, and a value with no integer image (out of range,
  NaN, infinite) fails the query.
\<close>

definition trunc0 :: "real \<Rightarrow> int" where
  "trunc0 x = (if 0 \<le> x then \<lfloor>x\<rfloor> else \<lceil>x\<rceil>)"

fun cast_int32 :: "fl option \<Rightarrow> error + int option" where
  "cast_int32 None = Inr None"
| "cast_int32 (Some (Fin x)) =
     (if - (2 ^ 31) \<le> trunc0 x \<and> trunc0 x < 2 ^ 31 then Inr (Some (trunc0 x))
      else Inl CastError)"
| "cast_int32 (Some _) = Inl CastError"

section \<open>The event panel\<close>

text \<open>
  One row of \<open>user_features.parquet\<close>. The loader keeps only rows whose rating is
  non-null and within \<open>[MIN_RATING, MAX_RATING]\<close>, so the rating is a finite number;
  the rolling acceptance rate is a mean of 0/1 values or null; the rolling solved
  difficulty is a quotient of two rolling sums and may be null, NaN or infinite.
\<close>

record event =
  handle :: string
  time :: int
  id_of_submission_task :: string
  verdict :: string
  rating :: real
  roll_acc_20 :: "real option"
  roll_ok_diff_20 :: "fl option"

subsection \<open>The rolling solved difficulty (compute_features.py)\<close>

text \<open>
  \<open>(temp_roll_whook_sum / roll_solve_cnt_20).fill_null(0.0)\<close>: the quotient is null
  while a rolling window is incomplete, NaN for \<open>0 / 0\<close>, infinite for \<open>x / 0\<close>.
\<close>

fun roll_quotient :: "real option \<Rightarrow> nat option \<Rightarrow> fl option" where
  "roll_quotient (Some s) (Some c) = Some (fl_div s (real c))"
| "roll_quotient _ _ = None"

definition roll_ok_diff_feature :: "real option \<Rightarrow> nat option \<Rightarrow> fl option" where
  "roll_ok_diff_feature s c = fill_null (Fin 0) (roll_quotient s c)"

section \<open>Bucketizer\<close>

subsection \<open>Forward pipeline (causal_engine.py, step 2)\<close>

definition bin_rating_expr :: "event \<Rightarrow> error + int option" where
  "bin_rating_expr e = cast_int32 (Some (round0 (Fin (rating e / 100))))"

definition bin_acc_expr :: "event \<Rightarrow> error + int option" where
  "bin_acc_expr e = cast_int32 (map_option (\<lambda>a. round0 (Fin (a * 10))) (roll_acc_20 e))"

definition bin_diff_of :: "fl option \<Rightarrow> error + int option" where
  "bin_diff_of c =
     cast_int32
       (map_option
          (\<lambda>d. round0 (fl_div_lit (if is_infinite d then Fin 0 else fill_nan 0 d) 200)) c)"

definition bin_diff_expr :: "event \<Rightarrow> error + int option" where
  "bin_diff_expr e = bin_diff_of (roll_ok_diff_20 e)"

text \<open>The stratum key of a row; any failing cast fails the row.\<close>

type_synonym stratum = "int option \<times> int option \<times> int option"

fun key_of :: "error + int option \<Rightarrow> error + int option \<Rightarrow> error + int option \<Rightarrow>
    error + stratum" where
  "key_of (Inr r) (Inr a) (Inr d) = Inr (r, a, d)"
| "key_of _ _ _ = Inl CastError"

definition stratum_key :: "event \<Rightarrow> error + stratum" where
  "stratum_key e = key_of (bin_rating_expr e) (bin_acc_expr e) (bin_diff_expr e)"

subsection \<open>Placebo pipeline (validation.py, step 2)\<close>

definition placebo_bin_rating :: "event \<Rightarrow> error + int option" where
  "placebo_bin_rating e = cast_int32 (Some (round0 (Fin (rating e / 100))))"

definition placebo_bin_acc :: "event \<Rightarrow> error + int option" where
  "placebo_bin_acc e =
     cast_int32 (map_option (\<lambda>a. round0 (Fin (a * 10))) (roll_acc_20 e))"

definition placebo_bin_diff :: "event \<Rightarrow> error + int option" where
  "placebo_bin_diff e =
     cast_int32
       (map_option
          (\<lambda>d. round0 (fl_div_lit (if is_infinite d then Fin 0 else fill_nan 0 d) 200))
          (roll_ok_diff_20 e))"

definition placebo_stratum_key :: "event \<Rightarrow> error + stratum" where
  "placebo_stratum_key e =
     key_of (placebo_bin_rating e) (placebo_bin_acc e) (placebo_bin_diff e)"

section \<open>Dataframe primitives\<close>

definition nth_opt :: "'a list \<Rightarrow> nat \<Rightarrow> 'a option" where
  "nth_opt xs n = (if n < length xs then Some (xs ! n) else None)"

text \<open>
  \<open>group_by\<close>: one group per distinct key, holding the rows of that key in frame order.
  The engine leaves the order of the groups open; here it is the order of \<open>remdups\<close>.
\<close>

definition group_by :: "('a \<Rightarrow> 'k) \<Rightarrow> 'a list \<Rightarrow> ('k \<times> 'a list) list" where
  "group_by f xs = map (\<lambda>k. (k, filter (\<lambda>x. f x = k) xs)) (remdups (map f xs))"

text \<open>\<open>mean\<close> of a group; a group of \<open>group_by\<close> is never empty.\<close>

definition mean :: "real list \<Rightarrow> real" where
  "mean xs = sum_list xs / real (length xs)"

text \<open>
  \<open>std\<close> with the default \<open>ddof = 1\<close>: the square root of the sample variance, null
  for fewer than two values.
\<close>

definition sample_var :: "real list \<Rightarrow> real" where
  "sample_var xs = sum_list (map (\<lambda>x. (x - mean xs)\<^sup>2) xs) / real (length xs - 1)"

definition std :: "real list \<Rightarrow> real option" where
  "std xs = (if length xs < 2 then None else Some (sqrt (sample_var xs)))"

text \<open>\<open>sum\<close> of a nullable column skips the nulls.\<close>

definition sum_nulls :: "real option list \<Rightarrow> real" where
  "sum_nulls xs = sum_list (map (\<lambda>x. case x of None \<Rightarrow> 0 | Some v \<Rightarrow> v) xs)"

text \<open>\<open>mean\<close> of a nullable integer column: over the non-null cells, null if there is none.\<close>

definition mean_nulls :: "int option list \<Rightarrow> real option" where
  "mean_nulls xs =
     (let vs = concat (map (\<lambda>x. case x of None \<Rightarrow> [] | Some v \<Rightarrow> [real_of_int v]) xs)
      in if vs = [] then None else Some (mean vs))"

text \<open>A join key matches only where none of its columns is null.\<close>

fun joinable :: "stratum \<Rightarrow> bool" where
  "joinable (Some r, Some a, Some d) = True"
| "joinable _ = False"

text \<open>
  \<open>lf.sort([COL_HANDLE, COL_TIMESTAMP])\<close>. The engine leaves the order of rows with equal
  handle and time open; here they keep their frame order.
\<close>

definition sort_panel :: "event list \<Rightarrow> event list" where
  "sort_panel xs = sort_key (\<lambda>e. (handle e, time e)) xs"

text \<open>
  \<open>pl.col(COL_USER_RATING).shift(-n).over(COL_HANDLE)\<close>: the rating \<open>n\<close> rows further
  down among the rows of the same handle, null where the handle has no such row.
\<close>

fun shift_fwd_over_handle :: "nat \<Rightarrow> event list \<Rightarrow> real option list" where
  "shift_fwd_over_handle n [] = []"
| "shift_fwd_over_handle n (e # es) =
     map_option rating (nth_opt (filter (\<lambda>x. handle x = handle e) (e # es)) n)
       # shift_fwd_over_handle n es"

text \<open>
  \<open>shift(n).over(COL_HANDLE)\<close>: the rating \<open>n\<close> rows further up among the rows of the
  same handle. \<open>seen\<close> holds the rows above, the nearest first.
\<close>

fun shift_back_over_handle :: "nat \<Rightarrow> event list \<Rightarrow> event list \<Rightarrow> real option list" where
  "shift_back_over_handle n seen [] = []"
| "shift_back_over_handle n seen (e # es) =
     map_option rating (nth_opt (filter (\<lambda>x. handle x = handle e) (e # seen)) n)
       # shift_back_over_handle n (e # seen) es"

section \<open>Forward pipeline (causal_engine.py)\<close>

subsection \<open>Steps 1 and 2: outcome and strata\<close>

record lf_row =
  ev :: event
  rating_gain_20 :: real
  improved_20 :: nat
  bins :: stratum

text \<open>
  \<open>rating_gain_20 = future_rating_20 - rating\<close>, null where the future rating is; the
  rows with a null gain are filtered out.
\<close>

definition rating_gains :: "event list \<Rightarrow> (event \<times> real) list" where
  "rating_gains xs =
     concat (map (\<lambda>(e, f). case f of None \<Rightarrow> [] | Some r \<Rightarrow> [(e, r - rating e)])
       (zip xs (shift_fwd_over_handle 20 xs)))"

fun bucketize :: "(event \<times> real) list \<Rightarrow> error + lf_row list" where
  "bucketize [] = Inr []"
| "bucketize ((e, g) # rest) =
     (case stratum_key e of
        Inl err \<Rightarrow> Inl err
      | Inr k \<Rightarrow>
          (case bucketize rest of
             Inl err \<Rightarrow> Inl err
           | Inr rs \<Rightarrow>
               Inr (\<lparr>ev = e, rating_gain_20 = g, improved_20 = (if 0 < g then 1 else 0),
                     bins = k\<rparr> # rs)))"

definition prepare :: "event list \<Rightarrow> error + lf_row list" where
  "prepare xs = bucketize (rating_gains (sort_panel xs))"

subsection \<open>Step 3: baseline statistics per stratum\<close>

record baseline_row =
  baseline_bins :: stratum
  baseline_gain :: real
  baseline_std :: "real option"
  baseline_count :: nat
  baseline_improve_prob :: real

definition baseline_agg :: "stratum \<times> lf_row list \<Rightarrow> baseline_row" where
  "baseline_agg g =
     \<lparr>baseline_bins = fst g,
      baseline_gain = mean (map rating_gain_20 (snd g)),
      baseline_std = std (map rating_gain_20 (snd g)),
      baseline_count = length (snd g),
      baseline_improve_prob = mean (map (\<lambda>r. real (improved_20 r)) (snd g))\<rparr>"

definition baseline_stats :: "int \<Rightarrow> lf_row list \<Rightarrow> baseline_row list" where
  "baseline_stats min_samples lf =
     filter (\<lambda>b. min_samples \<le> int (baseline_count b)) (map baseline_agg (group_by bins lf))"

subsection \<open>Step 4: treatment statistics per problem and stratum\<close>

record treatment_row =
  problem_id :: string
  treated_bins :: stratum
  treated_gain :: real
  treated_std :: "real option"
  treated_count :: nat
  treated_improve_prob :: real

definition treatment_agg :: "(string \<times> stratum) \<times> lf_row list \<Rightarrow> treatment_row" where
  "treatment_agg g =
     \<lparr>problem_id = fst (fst g),
      treated_bins = snd (fst g),
      treated_gain = mean (map rating_gain_20 (snd g)),
      treated_std = std (map rating_gain_20 (snd g)),
      treated_count = length (snd g),
      treated_improve_prob = mean (map (\<lambda>r. real (improved_20 r)) (snd g))\<rparr>"

definition treatment_stats :: "lf_row list \<Rightarrow> treatment_row list" where
  "treatment_stats lf =
     filter (\<lambda>t. 10 \<le> treated_count t)
       (map treatment_agg (group_by (\<lambda>r. (id_of_submission_task (ev r), bins r)) lf))"

subsection \<open>Step 5: effect per problem and stratum\<close>

text \<open>Inner join of the treatment statistics with the baseline statistics on the stratum.\<close>

definition join_stats ::
    "treatment_row list \<Rightarrow> baseline_row list \<Rightarrow> (treatment_row \<times> baseline_row) list" where
  "join_stats ts bs =
     concat (map (\<lambda>t. map (\<lambda>b. (t, b))
       (filter (\<lambda>b. joinable (treated_bins t) \<and> baseline_bins b = treated_bins t) bs)) ts)"

definition count_filter ::
    "int \<Rightarrow> (treatment_row \<times> baseline_row) list \<Rightarrow> (treatment_row \<times> baseline_row) list" where
  "count_filter min_samples js =
     filter (\<lambda>(t, b). min_samples \<le> int (treated_count t) \<and> min_samples \<le> int (baseline_count b))
       js"

definition uplift_of :: "treatment_row \<Rightarrow> baseline_row \<Rightarrow> real" where
  "uplift_of t b = treated_gain t - baseline_gain b"

text \<open>\<open>treated_std\<^sup>2 / treated_count + baseline_std\<^sup>2 / baseline_count\<close>, null if a std is.\<close>

definition bucket_variance_of :: "treatment_row \<Rightarrow> baseline_row \<Rightarrow> real option" where
  "bucket_variance_of t b =
     (case (treated_std t, baseline_std b) of
        (Some s1, Some s2) \<Rightarrow>
          Some (s1\<^sup>2 / real (treated_count t) + s2\<^sup>2 / real (baseline_count b))
      | _ \<Rightarrow> None)"

definition cap_filter ::
    "(treatment_row \<times> baseline_row) list \<Rightarrow> (treatment_row \<times> baseline_row) list" where
  "cap_filter js = filter (\<lambda>(t, b). \<bar>uplift_of t b\<bar> \<le> 300) js"

text \<open>\<open>pl.col("treated_count").sum().over(COL_PROBLEM_ID)\<close>.\<close>

definition total_treated :: "(treatment_row \<times> baseline_row) list \<Rightarrow> string \<Rightarrow> nat" where
  "total_treated js p =
     sum_list (map (\<lambda>(t, b). treated_count t) (filter (\<lambda>(t, b). problem_id t = p) js))"

record effect_row =
  treatment :: treatment_row
  baseline :: baseline_row
  uplift :: real
  bucket_variance :: "real option"
  probability_uplift :: real
  total_treated_samples :: nat
  weight :: real

definition effect_of ::
    "(treatment_row \<times> baseline_row) list \<Rightarrow> treatment_row \<times> baseline_row \<Rightarrow> effect_row" where
  "effect_of js tb =
     \<lparr>treatment = fst tb,
      baseline = snd tb,
      uplift = uplift_of (fst tb) (snd tb),
      bucket_variance = bucket_variance_of (fst tb) (snd tb),
      probability_uplift = treated_improve_prob (fst tb) - baseline_improve_prob (snd tb),
      total_treated_samples = total_treated js (problem_id (fst tb)),
      weight = real (treated_count (fst tb)) / real (total_treated js (problem_id (fst tb)))\<rparr>"

text \<open>Lines 92 to 132: from the joined frame to \<open>effect_df\<close>.\<close>

definition effect_df :: "int \<Rightarrow> (treatment_row \<times> baseline_row) list \<Rightarrow> effect_row list" where
  "effect_df min_samples joined =
     (let js = cap_filter (count_filter min_samples joined) in map (effect_of js) js)"

subsection \<open>Step 6: one effect per problem\<close>

record problem_effect =
  att_problem_id :: string
  att_score :: real
  att_variance :: real
  att_total_treated_samples :: "nat option"
  avg_rating_level :: "real option"
  att_probability_uplift :: real

definition final_agg :: "string \<times> effect_row list \<Rightarrow> problem_effect" where
  "final_agg g =
     \<lparr>att_problem_id = fst g,
      att_score = sum_list (map (\<lambda>e. weight e * uplift e) (snd g)),
      att_variance =
        sum_nulls (map (\<lambda>e. map_option (\<lambda>v. (weight e)\<^sup>2 * v) (bucket_variance e)) (snd g)),
      att_total_treated_samples = map_option total_treated_samples (nth_opt (snd g) 0),
      avg_rating_level = mean_nulls (map (\<lambda>e. fst (treated_bins (treatment e))) (snd g)),
      att_probability_uplift =
        sum_list (map (\<lambda>e. probability_uplift e * real (treated_count (treatment e))) (snd g))
          / real (sum_list (map (\<lambda>e. treated_count (treatment e)) (snd g)))\<rparr>"

definition final_effects :: "effect_row list \<Rightarrow> problem_effect list" where
  "final_effects effs = map final_agg (group_by (\<lambda>e. problem_id (treatment e)) effs)"

definition compute_causal_effects ::
    "int \<Rightarrow> event list \<Rightarrow> error + effect_row list \<times> problem_effect list" where
  "compute_causal_effects min_samples xs =
     (case prepare xs of
        Inl err \<Rightarrow> Inl err
      | Inr lf \<Rightarrow>
          (let eff = effect_df min_samples
                       (join_stats (treatment_stats lf) (baseline_stats min_samples lf))
           in Inr (eff, final_effects eff)))"

subsection \<open>Step 7: significance (run_pipeline)\<close>

definition P_VALUE_THRESHOLD :: real where
  "P_VALUE_THRESHOLD = 1 / 100"

definition MAX_ALLOWED_UPLIFT :: real where
  "MAX_ALLOWED_UPLIFT = 300"

definition fl_sqrt :: "real \<Rightarrow> fl" where
  "fl_sqrt x = (if x < 0 then NaN else Fin (sqrt x))"

fun fl_div_by :: "real \<Rightarrow> fl \<Rightarrow> fl" where
  "fl_div_by a (Fin b) = fl_div a b"
| "fl_div_by a PInf = Fin 0"
| "fl_div_by a NInf = Fin 0"
| "fl_div_by a NaN = NaN"

text \<open>
  \<open>2 * (1 - stats.norm.cdf(np.abs(z)))\<close>. The normal distribution function is a library
  primitive; \<open>Phi\<close> stands for it on the finite arguments, and it is 1 at infinity and
  NaN at NaN.
\<close>

fun two_tailed_p :: "(real \<Rightarrow> real) \<Rightarrow> fl \<Rightarrow> fl" where
  "two_tailed_p Phi (Fin z) = Fin (2 * (1 - Phi \<bar>z\<bar>))"
| "two_tailed_p Phi PInf = Fin 0"
| "two_tailed_p Phi NInf = Fin 0"
| "two_tailed_p Phi NaN = NaN"

text \<open>The filter \<open>p_value < threshold\<close>: a NaN compares greater than every number.\<close>

fun fl_less :: "fl \<Rightarrow> real \<Rightarrow> bool" where
  "fl_less (Fin v) c = (v < c)"
| "fl_less NInf c = True"
| "fl_less PInf c = False"
| "fl_less NaN c = False"

record significant_row =
  effect :: problem_effect
  att_std_err :: fl
  z_score :: fl
  p_value :: fl

definition with_significance :: "(real \<Rightarrow> real) \<Rightarrow> problem_effect \<Rightarrow> significant_row" where
  "with_significance Phi r =
     \<lparr>effect = r,
      att_std_err = fl_sqrt (att_variance r),
      z_score = fl_div_by (att_score r) (fl_sqrt (att_variance r)),
      p_value = two_tailed_p Phi (fl_div_by (att_score r) (fl_sqrt (att_variance r)))\<rparr>"

definition significant_effects ::
    "(real \<Rightarrow> real) \<Rightarrow> problem_effect list \<Rightarrow> significant_row list" where
  "significant_effects Phi fe =
     sort_key (\<lambda>r. - att_score (effect r))
       (filter (\<lambda>r. fl_less (p_value r) P_VALUE_THRESHOLD) (map (with_significance Phi) fe))"

text \<open>
  \<open>run_pipeline\<close>: the significant problems, and the rows of \<open>effect_df\<close> of those
  problems (the detailed table).
\<close>

definition run_pipeline ::
    "(real \<Rightarrow> real) \<Rightarrow> event list \<Rightarrow> error + significant_row list \<times> effect_row list" where
  "run_pipeline Phi xs =
     (case compute_causal_effects 50 xs of
        Inl err \<Rightarrow> Inl err
      | Inr (eff, fe) \<Rightarrow>
          (let sig = significant_effects Phi fe
           in Inr (sig,
                filter (\<lambda>e. problem_id (treatment e) \<in> set (map (\<lambda>r. att_problem_id (effect r)) sig))
                  eff)))"

section \<open>Placebo pipeline (validation.py)\<close>

record placebo_row =
  placebo_ev :: event
  placebo_gain_20 :: real
  placebo_improved_20 :: nat
  placebo_bins :: stratum

text \<open>\<open>placebo_gain_20 = rating - past_rating_20\<close>; rows with a null gain are dropped.\<close>

definition placebo_gains :: "event list \<Rightarrow> (event \<times> real) list" where
  "placebo_gains xs =
     concat (map (\<lambda>(e, f). case f of None \<Rightarrow> [] | Some r \<Rightarrow> [(e, rating e - r)])
       (zip xs (shift_back_over_handle 20 [] xs)))"

fun placebo_bucketize :: "(event \<times> real) list \<Rightarrow> error + placebo_row list" where
  "placebo_bucketize [] = Inr []"
| "placebo_bucketize ((e, g) # rest) =
     (case placebo_stratum_key e of
        Inl err \<Rightarrow> Inl err
      | Inr k \<Rightarrow>
          (case placebo_bucketize rest of
             Inl err \<Rightarrow> Inl err
           | Inr rs \<Rightarrow>
               Inr (\<lparr>placebo_ev = e, placebo_gain_20 = g,
                     placebo_improved_20 = (if 0 < g then 1 else 0), placebo_bins = k\<rparr> # rs)))"

definition placebo_prepare :: "event list \<Rightarrow> error + placebo_row list" where
  "placebo_prepare xs = placebo_bucketize (placebo_gains (sort_panel xs))"

subsection \<open>Step 3: baseline placebo\<close>

record baseline_placebo_agg =
  baseline_placebo_bins :: stratum
  baseline_placebo_gain :: real
  baseline_placebo_improve_prob :: real

definition baseline_placebo_of :: "stratum \<times> placebo_row list \<Rightarrow> baseline_placebo_agg" where
  "baseline_placebo_of g =
     \<lparr>baseline_placebo_bins = fst g,
      baseline_placebo_gain = mean (map placebo_gain_20 (snd g)),
      baseline_placebo_improve_prob = mean (map (\<lambda>r. real (placebo_improved_20 r)) (snd g))\<rparr>"

text \<open>
  \<open>baseline_count\<close> is \<open>pl.count().over([bins])\<close> on the aggregated frame: for each
  aggregated row, the number of aggregated rows of its stratum. A row is paired with its
  count, and the rows with a count of at least 20 are kept.
\<close>

definition baseline_placebo :: "placebo_row list \<Rightarrow> (baseline_placebo_agg \<times> nat) list" where
  "baseline_placebo lf =
     (let agg = map baseline_placebo_of (group_by placebo_bins lf)
      in filter (\<lambda>(a, baseline_count). 20 \<le> baseline_count)
           (map (\<lambda>a. (a, length (filter (\<lambda>a'. baseline_placebo_bins a' = baseline_placebo_bins a)
              agg))) agg))"

subsection \<open>Step 4: treated placebo\<close>

record treated_placebo_row =
  placebo_problem_id :: string
  treated_placebo_bins :: stratum
  treated_placebo_gain :: real
  treated_placebo_count :: nat
  treated_placebo_improve_prob :: real

definition treated_placebo_of :: "(string \<times> stratum) \<times> placebo_row list \<Rightarrow> treated_placebo_row" where
  "treated_placebo_of g =
     \<lparr>placebo_problem_id = fst (fst g),
      treated_placebo_bins = snd (fst g),
      treated_placebo_gain = mean (map placebo_gain_20 (snd g)),
      treated_placebo_count = length (snd g),
      treated_placebo_improve_prob = mean (map (\<lambda>r. real (placebo_improved_20 r)) (snd g))\<rparr>"

definition treated_placebo :: "placebo_row list \<Rightarrow> treated_placebo_row list" where
  "treated_placebo lf =
     filter (\<lambda>t. 20 \<le> treated_placebo_count t)
       (map treated_placebo_of
          (group_by (\<lambda>r. (id_of_submission_task (placebo_ev r), placebo_bins r)) lf))"

subsection \<open>Steps 5 and 6: bias per problem\<close>

record bias_row =
  bias_treated :: treated_placebo_row
  bias_baseline :: baseline_placebo_agg
  bias_baseline_count :: nat
  selection_bias :: real
  probability_selection_bias :: real

definition bias_df ::
    "treated_placebo_row list \<Rightarrow> (baseline_placebo_agg \<times> nat) list \<Rightarrow> bias_row list" where
  "bias_df ts bs =
     filter (\<lambda>r. \<bar>selection_bias r\<bar> \<le> 300)
       (concat (map (\<lambda>t. map (\<lambda>(b, c).
            \<lparr>bias_treated = t, bias_baseline = b, bias_baseline_count = c,
             selection_bias = treated_placebo_gain t - baseline_placebo_gain b,
             probability_selection_bias =
               treated_placebo_improve_prob t - baseline_placebo_improve_prob b\<rparr>)
          (filter (\<lambda>(b, c). joinable (treated_placebo_bins t)
                     \<and> baseline_placebo_bins b = treated_placebo_bins t) bs)) ts))"

record bias_record =
  bias_problem_id :: string
  bias_score :: real
  probability_bias_score :: real
  total_samples :: nat

definition bias_agg :: "string \<times> bias_row list \<Rightarrow> bias_record" where
  "bias_agg g =
     \<lparr>bias_problem_id = fst g,
      bias_score =
        sum_list (map (\<lambda>r. selection_bias r * real (treated_placebo_count (bias_treated r))) (snd g))
          / real (sum_list (map (\<lambda>r. treated_placebo_count (bias_treated r)) (snd g))),
      probability_bias_score =
        sum_list (map (\<lambda>r. probability_selection_bias r
                          * real (treated_placebo_count (bias_treated r))) (snd g))
          / real (sum_list (map (\<lambda>r. treated_placebo_count (bias_treated r)) (snd g))),
      total_samples = sum_list (map (\<lambda>r. treated_placebo_count (bias_treated r)) (snd g))\<rparr>"

definition aggregated_bias :: "bias_row list \<Rightarrow> bias_record list" where
  "aggregated_bias rows =
     sort_key (\<lambda>r. - bias_score r)
       (map bias_agg (group_by (\<lambda>r. placebo_problem_id (bias_treated r)) rows))"

definition run_placebo_test :: "event list \<Rightarrow> error + bias_record list" where
  "run_placebo_test xs =
     (case placebo_prepare xs of
        Inl err \<Rightarrow> Inl err
      | Inr lf \<Rightarrow> Inr (aggregated_bias (bias_df (treated_placebo lf) (baseline_placebo lf))))"

section \<open>Concrete inputs\<close>

text \<open>
  The distribution function of the point mass at 0. It instantiates \<open>Phi\<close> where a
  closed statement needs a concrete function.
\<close>

definition unit_step :: "real \<Rightarrow> real" where
  "unit_step x = (if x < 0 then 0 else 1)"

subsection \<open>A panel of two users\<close>

text \<open>
  User \<open>u\<close> submits 71 times: first to \<open>Q\<close> at rating 990, then to \<open>P\<close> at rating
  1000. User \<open>v\<close> submits 120 times at rating 1200: 50 times to \<open>P\<close>, then to
  \<open>R\<close>. No submission is accepted.
\<close>

definition panel_event :: "string \<Rightarrow> nat \<Rightarrow> event" where
  "panel_event h i =
     \<lparr>handle = h, time = int i,
      id_of_submission_task =
        (if h = ''u'' then (if i = 0 then ''Q'' else ''P'') else (if i < 50 then ''P'' else ''R'')),
      verdict = ''WRONG_ANSWER'',
      rating = (if h = ''u'' then (if i = 0 then 990 else 1000) else 1200),
      roll_acc_20 = Some (1 / 2),
      roll_ok_diff_20 = Some (Fin 1000)\<rparr>"

definition panel :: "event list" where
  "panel = map (panel_event ''u'') [0..<71] @ map (panel_event ''v'') [0..<120]"

definition panel_row :: "string \<Rightarrow> nat \<Rightarrow> lf_row" where
  "panel_row h i =
     \<lparr>ev = panel_event h i,
      rating_gain_20 = (if h = ''u'' \<and> i = 0 then 10 else 0),
      improved_20 = (if h = ''u'' \<and> i = 0 then 1 else 0),
      bins = (Some (if h = ''u'' then 10 else 12), Some 5, Some 5)\<rparr>"

definition panel_lf :: "lf_row list" where
  "panel_lf = map (panel_row ''u'') [0..<51] @ map (panel_row ''v'') [0..<100]"

definition panel_treated :: "treatment_row list" where
  "panel_treated =
     [\<lparr>problem_id = ''P'', treated_bins = (Some 10, Some 5, Some 5), treated_gain = 0,
       treated_std = Some 0, treated_count = 50, treated_improve_prob = 0\<rparr>,
      \<lparr>problem_id = ''P'', treated_bins = (Some 12, Some 5, Some 5), treated_gain = 0,
       treated_std = Some 0, treated_count = 50, treated_improve_prob = 0\<rparr>,
      \<lparr>problem_id = ''R'', treated_bins = (Some 12, Some 5, Some 5), treated_gain = 0,
       treated_std = Some 0, treated_count = 50, treated_improve_prob = 0\<rparr>]"

definition panel_baseline :: "baseline_row list" where
  "panel_baseline =
     [\<lparr>baseline_bins = (Some 10, Some 5, Some 5), baseline_gain = 10 / 51,
       baseline_std = Some (sqrt (100 / 51)), baseline_count = 51,
       baseline_improve_prob = 1 / 51\<rparr>,
      \<lparr>baseline_bins = (Some 12, Some 5, Some 5), baseline_gain = 0,
       baseline_std = Some 0, baseline_count = 100, baseline_improve_prob = 0\<rparr>]"

definition panel_effects :: "effect_row list" where
  "panel_effects =
     [\<lparr>treatment = panel_treated ! 0, baseline = panel_baseline ! 0, uplift = - (10 / 51),
       bucket_variance = Some (100 / 2601), probability_uplift = - (1 / 51),
       total_treated_samples = 100, weight = 1 / 2\<rparr>,
      \<lparr>treatment = panel_treated ! 1, baseline = panel_baseline ! 1, uplift = 0,
       bucket_variance = Some 0, probability_uplift = 0,
       total_treated_samples = 100, weight = 1 / 2\<rparr>,
      \<lparr>treatment = panel_treated ! 2, baseline = panel_baseline ! 1, uplift = 0,
       bucket_variance = Some 0, probability_uplift = 0,
       total_treated_samples = 50, weight = 1\<rparr>]"

definition panel_finals :: "problem_effect list" where
  "panel_finals =
     [\<lparr>att_problem_id = ''P'', att_score = - (5 / 51), att_variance = 25 / 2601,
       att_total_treated_samples = Some 100, avg_rating_level = Some 11,
       att_probability_uplift = - (1 / 102)\<rparr>,
      \<lparr>att_problem_id = ''R'', att_score = 0, att_variance = 0,
       att_total_treated_samples = Some 50, avg_rating_level = Some 12,
       att_probability_uplift = 0\<rparr>]"

subsection \<open>Events without a usable solved difficulty\<close>




subsection \<open>A per-problem row with zero variance and a non-zero score\<close>

text \<open>
  A row of the per-problem table as the Float64 aggregation can hand it to the
  significance step: one stratum whose 50 treated and 51 baseline gains are all equal, so
  that both standard deviations are 0.0, while the two means, rounded differently, differ
  in the last bit. The exact means of this theory never differ there.
\<close>

definition degenerate_row :: problem_effect where
  "degenerate_row =
     \<lparr>att_problem_id = ''P'', att_score = - (1 / 2 ^ 48), att_variance = 0,
      att_total_treated_samples = Some 50, avg_rating_level = Some 9,
      att_probability_uplift = 0\<rparr>"

subsection \<open>The worked scenario\<close>

text \<open>
  Two joined rows of one problem, with the statistics of the scenario. The strata and the
  improvement rates, which the scenario leaves open, are fixed arbitrarily.
\<close>

definition stratum_A :: "treatment_row \<times> baseline_row" where
  "stratum_A =
     (\<lparr>problem_id = ''P'', treated_bins = (Some 15, Some 5, Some 7), treated_gain = 60,
       treated_std = Some 40, treated_count = 100, treated_improve_prob = 3 / 5\<rparr>,
      \<lparr>baseline_bins = (Some 15, Some 5, Some 7), baseline_gain = 20,
       baseline_std = Some 50, baseline_count = 1000, baseline_improve_prob = 1 / 2\<rparr>)"

definition stratum_B :: "treatment_row \<times> baseline_row" where
  "stratum_B =
     (\<lparr>problem_id = ''P'', treated_bins = (Some 16, Some 5, Some 7), treated_gain = 30,
       treated_std = Some 30, treated_count = 50, treated_improve_prob = 11 / 20\<rparr>,
      \<lparr>baseline_bins = (Some 16, Some 5, Some 7), baseline_gain = 10,
       baseline_std = Some 45, baseline_count = 500, baseline_improve_prob = 1 / 2\<rparr>)"

definition scenario_effects :: "effect_row list" where
  "scenario_effects = effect_df 50 [stratum_A, stratum_B]"

definition scenario_finals :: "problem_effect list" where
  "scenario_finals = final_effects scenario_effects"

subsection \<open>A panel with a rating trend before the submissions\<close>

text \<open>
  User \<open>a\<close> submits 50 times to \<open>Q\<close> while the rating rises by one point per
  submission from 1000; user \<open>b\<close> submits 60 times to \<open>R\<close> at a constant rating of
  1030. The placebo frame holds the submissions that have a twentieth predecessor.
\<close>

definition placebo_panel_event :: "string \<Rightarrow> nat \<Rightarrow> event" where
  "placebo_panel_event h i =
     \<lparr>handle = h, time = int i,
      id_of_submission_task = (if h = ''a'' then ''Q'' else ''R''),
      verdict = ''OK'',
      rating = (if h = ''a'' then 1000 + real i else 1030),
      roll_acc_20 = Some (1 / 2),
      roll_ok_diff_20 = Some (Fin 1000)\<rparr>"

definition placebo_panel :: "event list" where
  "placebo_panel = map (placebo_panel_event ''a'') [0..<50] @ map (placebo_panel_event ''b'') [0..<60]"

definition placebo_panel_row :: "string \<Rightarrow> nat \<Rightarrow> placebo_row" where
  "placebo_panel_row h i =
     \<lparr>placebo_ev = placebo_panel_event h i,
      placebo_gain_20 = (if h = ''a'' then 20 else 0),
      placebo_improved_20 = (if h = ''a'' then 1 else 0),
      placebo_bins = (Some 10, Some 5, Some 5)\<rparr>"

definition placebo_panel_lf :: "placebo_row list" where
  "placebo_panel_lf =
     map (placebo_panel_row ''a'') [20..<50] @ map (placebo_panel_row ''b'') [20..<60]"

definition placebo_panel_treated :: "treated_placebo_row list" where
  "placebo_panel_treated =
     [\<lparr>placebo_problem_id = ''Q'', treated_placebo_bins = (Some 10, Some 5, Some 5),
       treated_placebo_gain = 20, treated_placebo_count = 30, treated_placebo_improve_prob = 1\<rparr>,
      \<lparr>placebo_problem_id = ''R'', treated_placebo_bins = (Some 10, Some 5, Some 5),
       treated_placebo_gain = 0, treated_placebo_count = 40, treated_placebo_improve_prob = 0\<rparr>]"

section \<open>Dataframe lemmas\<close>

lemma group_by_iff:
  "(k, g) \<in> set (group_by f xs) \<longleftrightarrow> k \<in> f ` set xs \<and> g = filter (\<lambda>x. f x = k) xs"
  by (auto simp: group_by_def)

lemma sum_list_div_const:
  "sum_list (map (\<lambda>x. f x / (c::real)) xs) = sum_list (map f xs) / c"
  by (induction xs) (simp_all add: add_divide_distrib)

lemma sum_list_map_cong_set:
  "(\<And>x. x \<in> set xs \<Longrightarrow> f x = g x) \<Longrightarrow> sum_list (map f xs) = sum_list (map g xs)"
  by (induction xs) auto

lemma mean_const:
  assumes "xs \<noteq> []" "\<forall>x\<in>set xs. x = c"
  shows "mean xs = c"
proof -
  have "xs = replicate (length xs) c" using assms(2) by (simp add: replicate_length_same)
  then have "sum_list xs = real (length xs) * c" by (metis sum_list_replicate)
  with assms(1) show ?thesis by (simp add: mean_def)
qed

lemma mean_zeros: "mean (map (\<lambda>_. 0) xs) = 0"
  by (induction xs) (simp_all add: mean_def)

lemma var_zeros: "sample_var (map (\<lambda>_. 0) xs) = 0"
  by (simp add: sample_var_def mean_zeros comp_def)

section \<open>Bucketizer lemmas\<close>

lemma trunc0_zero: "trunc0 0 = 0"
  by (simp add: trunc0_def)

lemma round_half_away_zero: "round_half_away 0 = 0"
  by (simp add: round_half_away_def)

lemma bin_diff_of_coerced:
  assumes "q = None \<or> q = Some NaN \<or> q = Some PInf \<or> q = Some NInf"
  shows "bin_diff_of (fill_null (Fin 0) q) = Inr (Some 0)"
  using assms by (auto simp: bin_diff_of_def trunc0_zero round_half_away_zero)


lemma bucketize_events: "bucketize xs = Inr rs \<Longrightarrow> map ev rs = map fst xs"
  by (induction xs arbitrary: rs) (auto split: sum.splits)

lemma bucketize_bins:
  "bucketize xs = Inr rs \<Longrightarrow> r \<in> set rs \<Longrightarrow> stratum_key (ev r) = Inr (bins r)"
  by (induction xs arbitrary: rs) (auto split: sum.splits)

section \<open>Effect and aggregation lemmas\<close>

lemma compute_Inr:
  assumes "compute_causal_effects ms xs = Inr (eff, fe)"
  obtains lf where "prepare xs = Inr lf"
    "eff = effect_df ms (join_stats (treatment_stats lf) (baseline_stats ms lf))"
    "fe = final_effects eff"
  using assms by (auto simp: compute_causal_effects_def Let_def split: sum.splits)

lemma effect_df_rows:
  "effect_df ms joined
     = map (effect_of (cap_filter (count_filter ms joined))) (cap_filter (count_filter ms joined))"
  by (simp add: effect_df_def Let_def)

lemma final_effects_row:
  assumes "r \<in> set (final_effects eff)"
  shows "r = final_agg (att_problem_id r,
                filter (\<lambda>e. problem_id (treatment e) = att_problem_id r) eff)
    \<and> (\<exists>e\<in>set eff. problem_id (treatment e) = att_problem_id r)"
  using assms by (auto simp: final_effects_def group_by_def final_agg_def)

lemma surviving_pair:
  assumes "tb \<in> set (cap_filter (count_filter ms (join_stats ts bs)))"
  shows "fst tb \<in> set ts \<and> snd tb \<in> set bs \<and> baseline_bins (snd tb) = treated_bins (fst tb)
     \<and> \<bar>uplift_of (fst tb) (snd tb)\<bar> \<le> 300"
  using assms by (auto simp: cap_filter_def count_filter_def join_stats_def)

lemma treatment_stats_count: "t \<in> set (treatment_stats lf) \<Longrightarrow> 10 \<le> treated_count t"
  by (simp add: treatment_stats_def)

lemma treated_count_pos:
  assumes "tb \<in> set (cap_filter (count_filter ms (join_stats (treatment_stats lf) bs)))"
  shows "0 < treated_count (fst tb)"
  using surviving_pair[OF assms] treatment_stats_count[of "fst tb" lf] by simp

lemma filter_map_effect:
  "filter (\<lambda>e. problem_id (treatment e) = p) (map (effect_of js) ks)
     = map (effect_of js) (filter (\<lambda>(t, b). problem_id t = p) ks)"
  by (induction ks) (auto simp: effect_of_def)

lemma total_treated_real:
  "real (total_treated js p)
     = sum_list (map (\<lambda>tb. real (treated_count (fst tb)))
         (filter (\<lambda>(t, b). problem_id t = p) js))"
  unfolding total_treated_def by (induction js) (auto simp: split_def)

lemma total_treated_pos:
  assumes "tb \<in> set js" "0 < treated_count (fst tb)"
  shows "0 < total_treated js (problem_id (fst tb))"
proof -
  let ?rows = "filter (\<lambda>(t, b). problem_id t = problem_id (fst tb)) js"
  have "tb \<in> set ?rows"
    using assms by (auto simp: split_def)
  then have "treated_count (fst tb) \<le> total_treated js (problem_id (fst tb))"
    unfolding total_treated_def
    using member_le_sum_list[of "treated_count (fst tb)" "map (\<lambda>(t, b). treated_count t) ?rows"]
    by (force simp: split_def)
  with assms show ?thesis by linarith
qed

lemma weight_effect_of:
  "weight (effect_of js tb)
     = real (treated_count (fst tb)) / real (total_treated js (problem_id (fst tb)))"
  by (simp add: effect_of_def)

lemma weights_sum:
  assumes "tb \<in> set js" "0 < treated_count (fst tb)" "p = problem_id (fst tb)"
  shows "sum_list (map weight
           (filter (\<lambda>e. problem_id (treatment e) = p) (map (effect_of js) js))) = 1"
proof -
  let ?rows = "filter (\<lambda>(t, b). problem_id t = p) js"
  have pos: "0 < real (total_treated js p)"
    using total_treated_pos[OF assms(1,2)] assms(3) by simp
  have "map weight (map (effect_of js) ?rows)
      = map (\<lambda>tb. real (treated_count (fst tb)) / real (total_treated js p)) ?rows"
    by (auto simp: weight_effect_of split_def)
  then have "sum_list (map weight (map (effect_of js) ?rows))
      = real (total_treated js p) / real (total_treated js p)"
    by (simp only: sum_list_div_const total_treated_real[symmetric])
  then show ?thesis
    using pos by (simp only: filter_map_effect) simp
qed

section \<open>The pipeline on the panel of two users\<close>

lemma panel_prepare: "prepare panel = Inr panel_lf"
  by code_simp

lemma panel_groups_treated:
  "group_by (\<lambda>r. (id_of_submission_task (ev r), bins r)) panel_lf
     = [((''Q'', Some 10, Some 5, Some 5), map (panel_row ''u'') [0..<1]),
        ((''P'', Some 10, Some 5, Some 5), map (panel_row ''u'') [1..<51]),
        ((''P'', Some 12, Some 5, Some 5), map (panel_row ''v'') [0..<50]),
        ((''R'', Some 12, Some 5, Some 5), map (panel_row ''v'') [50..<100])]"
  by code_simp

lemma panel_groups_baseline:
  "group_by bins panel_lf = [((Some 10, Some 5, Some 5), map (panel_row ''u'') [0..<51]),
     ((Some 12, Some 5, Some 5), map (panel_row ''v'') [0..<100])]"
  by code_simp

lemma gain_u:
  "map (rating_gain_20 \<circ> panel_row ''u'') [Suc 0..<51] = map (\<lambda>_. 0) [Suc 0..<51]"
  by (simp add: panel_row_def del: upt_Suc upt_rec_numeral)

lemma gain_v: "rating_gain_20 \<circ> panel_row ''v'' = (\<lambda>_. 0)"
  by (simp add: panel_row_def fun_eq_iff)

lemma improved_u:
  "map ((\<lambda>r. real (improved_20 r)) \<circ> panel_row ''u'') [Suc 0..<51]
     = map (\<lambda>_. 0) [Suc 0..<51]"
  by (simp add: panel_row_def del: upt_Suc upt_rec_numeral)

lemma improved_v: "(\<lambda>r. real (improved_20 r)) \<circ> panel_row ''v'' = (\<lambda>_. 0)"
  by (simp add: panel_row_def fun_eq_iff)

lemma gain_u_mean: "mean (map (rating_gain_20 \<circ> panel_row ''u'') [0..<51]) = 10 / 51"
  by code_simp

lemma gain_u_var: "sample_var (map (rating_gain_20 \<circ> panel_row ''u'') [0..<51]) = 100 / 51"
  by code_simp

lemma improved_u_mean:
  "mean (map ((\<lambda>r. real (improved_20 r)) \<circ> panel_row ''u'') [0..<51]) = 1 / 51"
  by code_simp

lemma panel_treatment_stats: "treatment_stats panel_lf = panel_treated"
  unfolding treatment_stats_def panel_groups_treated
  by (simp add: treatment_agg_def gain_u gain_v improved_u improved_v mean_zeros var_zeros std_def
      panel_treated_def del: upt_Suc upt_rec_numeral)

lemma panel_baseline_stats: "baseline_stats 50 panel_lf = panel_baseline"
  unfolding baseline_stats_def panel_groups_baseline
  by (simp add: baseline_agg_def gain_v improved_v mean_zeros var_zeros gain_u_mean gain_u_var
      improved_u_mean std_def panel_baseline_def del: upt_Suc upt_rec_numeral)

lemma panel_effect_rows: "effect_df 50 (join_stats panel_treated panel_baseline) = panel_effects"
  by (simp add: effect_df_def join_stats_def count_filter_def cap_filter_def uplift_of_def
      panel_treated_def panel_baseline_def effect_of_def total_treated_def bucket_variance_of_def
      panel_effects_def power2_eq_square)

lemma panel_final_rows: "final_effects panel_effects = panel_finals"
  by (simp add: final_effects_def group_by_def final_agg_def panel_effects_def panel_treated_def
      sum_nulls_def nth_opt_def mean_nulls_def mean_def panel_finals_def power_divide)

lemma panel_compute: "compute_causal_effects 50 panel = Inr (panel_effects, panel_finals)"
  by (simp add: compute_causal_effects_def panel_prepare panel_treatment_stats
      panel_baseline_stats panel_effect_rows panel_final_rows)

section \<open>Bucketizer properties\<close>

text \<open>
  C9. Bucket determinism: the placebo pipeline computes, for every event, the stratum key
  that the forward pipeline computes for it, bucket by bucket; and the key is a function of
  the three confounder values alone, so two events that agree on rating, rolling accuracy
  and rolling difficulty get the same key, whatever their user, time, problem or verdict.
\<close>

theorem bucket_determinism:
  "placebo_stratum_key e = stratum_key e
   \<and> placebo_bin_rating e = bin_rating_expr e
   \<and> placebo_bin_acc e = bin_acc_expr e
   \<and> placebo_bin_diff e = bin_diff_expr e
   \<and> (rating e' = rating e \<and> roll_acc_20 e' = roll_acc_20 e
        \<and> roll_ok_diff_20 e' = roll_ok_diff_20 e
       \<longrightarrow> stratum_key e' = stratum_key e \<and> placebo_stratum_key e' = placebo_stratum_key e)"
  by (simp add: placebo_stratum_key_def stratum_key_def placebo_bin_rating_def
      placebo_bin_acc_def placebo_bin_diff_def bin_rating_expr_def bin_acc_expr_def
      bin_diff_expr_def bin_diff_of_def)

text \<open>
  Two submissions of different users to different problems, in the same state.
\<close>

theorem bucket_determinism_witness:
  "rating (panel_event ''v'' 7) = rating (panel_event ''v'' 60)
   \<and> roll_acc_20 (panel_event ''v'' 7) = roll_acc_20 (panel_event ''v'' 60)
   \<and> roll_ok_diff_20 (panel_event ''v'' 7) = roll_ok_diff_20 (panel_event ''v'' 60)
   \<and> id_of_submission_task (panel_event ''v'' 7) \<noteq> id_of_submission_task (panel_event ''v'' 60)
   \<and> stratum_key (panel_event ''v'' 7) = stratum_key (panel_event ''v'' 60)
   \<and> placebo_stratum_key (panel_event ''v'' 60) = stratum_key (panel_event ''v'' 60)"
proof -
  have h: "rating (panel_event ''v'' 7) = rating (panel_event ''v'' 60)
      \<and> roll_acc_20 (panel_event ''v'' 7) = roll_acc_20 (panel_event ''v'' 60)
      \<and> roll_ok_diff_20 (panel_event ''v'' 7) = roll_ok_diff_20 (panel_event ''v'' 60)"
    by (simp add: panel_event_def)
  have "id_of_submission_task (panel_event ''v'' 7) \<noteq> id_of_submission_task (panel_event ''v'' 60)"
    by (simp add: panel_event_def)
  with h bucket_determinism[of "panel_event ''v'' 60" "panel_event ''v'' 7"]
  show ?thesis by blast
qed

lemma roll_ok_diff_feature_filled: "roll_ok_diff_feature s c \<noteq> None"
  unfolding roll_ok_diff_feature_def by (cases "roll_quotient s c") simp_all

text \<open>
  The feature pipeline stores 0.0 for a null quotient, and the stored 0.0 falls into the
  difficulty bucket 0.
\<close>

lemma null_quotient_bucket:
  "roll_quotient s c = None \<Longrightarrow> bin_diff_of (roll_ok_diff_feature s c) = Inr (Some 0)"
  unfolding roll_ok_diff_feature_def by (rule bin_diff_of_coerced) simp





section \<open>Effect combiner properties\<close>

text \<open>
  C7. Cap enforcement: every row of the per-(problem, stratum) effect table has an uplift,
  the treated mean gain minus the baseline mean gain, of magnitude at most the sanity cap
  of 300 rating points (the literal in the filter, which is the value of
  \<open>MAX_ALLOWED_UPLIFT\<close>).
\<close>

theorem cap_enforcement:
  assumes "compute_causal_effects ms xs = Inr (eff, fe)" and "e \<in> set eff"
  shows "\<bar>uplift e\<bar> \<le> MAX_ALLOWED_UPLIFT
     \<and> uplift e = treated_gain (treatment e) - baseline_gain (baseline e)"
proof -
  from assms(1) obtain lf where
    eff: "eff = effect_df ms (join_stats (treatment_stats lf) (baseline_stats ms lf))"
    by (rule compute_Inr)
  let ?js = "cap_filter (count_filter ms (join_stats (treatment_stats lf) (baseline_stats ms lf)))"
  from assms(2) obtain tb where tb: "tb \<in> set ?js" and e: "e = effect_of ?js tb"
    unfolding eff effect_df_rows by auto
  from surviving_pair[OF tb] have "\<bar>uplift_of (fst tb) (snd tb)\<bar> \<le> 300" by simp
  then show ?thesis by (simp add: e effect_of_def MAX_ALLOWED_UPLIFT_def uplift_of_def)
qed

theorem cap_enforcement_witness:
  "compute_causal_effects 50 panel = Inr (panel_effects, panel_finals)
   \<and> panel_effects ! 0 \<in> set panel_effects
   \<and> uplift (panel_effects ! 0) = - (10 / 51)
   \<and> \<bar>uplift (panel_effects ! 0)\<bar> \<le> MAX_ALLOWED_UPLIFT"
proof -
  have m: "panel_effects ! 0 \<in> set panel_effects"
    by (simp add: panel_effects_def)
  have u: "uplift (panel_effects ! 0) = - (10 / 51)"
    by (simp add: panel_effects_def)
  from cap_enforcement[OF panel_compute m] panel_compute m u show ?thesis
    by blast
qed

text \<open>
  C6. A problem with no row in the effect table, that is, none of whose (problem, stratum)
  groups survives the count filters, the join and the cap, has no row in the per-problem
  table, and none in the significant problems that the pipeline writes.
\<close>

theorem no_surviving_stratum_absent:
  assumes "compute_causal_effects ms xs = Inr (eff, fe)"
    and "p \<notin> set (map (\<lambda>e. problem_id (treatment e)) eff)"
  shows "p \<notin> set (map att_problem_id fe)
     \<and> p \<notin> set (map (\<lambda>r. att_problem_id (effect r)) (significant_effects Phi fe))"
proof -
  from assms(1) have fe: "fe = final_effects eff" by (rule compute_Inr)
  have a: "p \<notin> set (map att_problem_id fe)"
  proof
    assume "p \<in> set (map att_problem_id fe)"
    then obtain r where "r \<in> set (final_effects eff)" "att_problem_id r = p" unfolding fe by auto
    with final_effects_row[of r eff] assms(2) show False by auto
  qed
  have "set (map (\<lambda>r. att_problem_id (effect r)) (significant_effects Phi fe)) \<subseteq> set (map att_problem_id fe)"
    by (auto simp: significant_effects_def with_significance_def)
  with a show ?thesis by blast
qed

text \<open>Problem \<open>Q\<close> has one submission in the panel, below every count threshold.\<close>

theorem no_surviving_stratum_absent_witness:
  "compute_causal_effects 50 panel = Inr (panel_effects, panel_finals)
   \<and> ''Q'' \<in> set (map id_of_submission_task panel)
   \<and> ''Q'' \<notin> set (map (\<lambda>e. problem_id (treatment e)) panel_effects)
   \<and> ''Q'' \<notin> set (map att_problem_id panel_finals)
   \<and> ''Q'' \<notin> set (map (\<lambda>r. att_problem_id (effect r)) (significant_effects unit_step panel_finals))"
proof -
  have a: "''Q'' \<notin> set (map (\<lambda>e. problem_id (treatment e)) panel_effects)"
    by (simp add: panel_effects_def panel_treated_def)
  have "(0::nat) \<in> set [0..<71]"
    by simp
  then have "panel_event ''u'' 0 \<in> set (map (panel_event ''u'') [0..<71])"
    unfolding set_map by (rule imageI)
  then have "panel_event ''u'' 0 \<in> set panel"
    by (simp only: panel_def set_append Un_iff simp_thms)
  moreover have "id_of_submission_task (panel_event ''u'' 0) = ''Q''"
    by (simp add: panel_event_def)
  ultimately have q: "''Q'' \<in> set (map id_of_submission_task panel)"
    by (metis image_eqI list.set_map)
  from no_surviving_stratum_absent[OF panel_compute a, of unit_step] panel_compute a q
  show ?thesis by blast
qed

section \<open>ATT aggregator properties\<close>

text \<open>
  C5. Weight normalization: for every problem of the per-problem table, the weights of its
  rows of the effect table sum to 1, where the weight of a row is its treated count over
  the total treated count of its problem's rows.
\<close>

theorem weight_normalization:
  assumes "compute_causal_effects ms xs = Inr (eff, fe)" and "r \<in> set fe"
  shows "sum_list (map weight (filter (\<lambda>e. problem_id (treatment e) = att_problem_id r) eff)) = 1
    \<and> (\<forall>e\<in>set eff. weight e = real (treated_count (treatment e)) / real (total_treated_samples e)
          \<and> total_treated_samples e
              = sum_list (map (\<lambda>e'. treated_count (treatment e'))
                  (filter (\<lambda>e'. problem_id (treatment e') = problem_id (treatment e)) eff)))"
proof -
  from assms(1) obtain lf where
    eff: "eff = effect_df ms (join_stats (treatment_stats lf) (baseline_stats ms lf))"
    and fe: "fe = final_effects eff"
    by (rule compute_Inr)
  let ?js = "cap_filter (count_filter ms (join_stats (treatment_stats lf) (baseline_stats ms lf)))"
  have eff': "eff = map (effect_of ?js) ?js" unfolding eff effect_df_rows ..
  from assms(2) fe obtain e where "e \<in> set eff" "problem_id (treatment e) = att_problem_id r"
    using final_effects_row[of r eff] by auto
  then obtain tb where tb: "tb \<in> set ?js" and p: "att_problem_id r = problem_id (fst tb)"
    unfolding eff' by (auto simp: effect_of_def)
  have one: "sum_list (map weight (filter (\<lambda>e. problem_id (treatment e) = att_problem_id r) eff)) = 1"
    unfolding eff' by (rule weights_sum[OF tb treated_count_pos[OF tb] p])
  have tot: "total_treated ?js q
      = sum_list (map (\<lambda>e'. treated_count (treatment e')) (filter (\<lambda>e'. problem_id (treatment e') = q) (map (effect_of ?js) ?js)))" for q
    by (simp add: filter_map_effect total_treated_def comp_def effect_of_def split_def)
  have "weight e = real (treated_count (treatment e)) / real (total_treated_samples e)
          \<and> total_treated_samples e
              = sum_list (map (\<lambda>e'. treated_count (treatment e'))
                  (filter (\<lambda>e'. problem_id (treatment e') = problem_id (treatment e)) eff))"
    if "e \<in> set eff" for e
  proof -
    from that obtain tb' where "e = effect_of ?js tb'" unfolding eff' by auto
    then show ?thesis using tot[of "problem_id (fst tb')"] unfolding eff'[symmetric]
      by (simp add: effect_of_def)
  qed
  with one show ?thesis by blast
qed

theorem weight_normalization_witness:
  "compute_causal_effects 50 panel = Inr (panel_effects, panel_finals)
   \<and> panel_finals ! 0 \<in> set panel_finals
   \<and> map weight (filter (\<lambda>e. problem_id (treatment e) = att_problem_id (panel_finals ! 0))
        panel_effects) = [1 / 2, 1 / 2]
   \<and> sum_list (map weight
        (filter (\<lambda>e. problem_id (treatment e) = att_problem_id (panel_finals ! 0)) panel_effects))
       = 1"
proof -
  have m: "panel_finals ! 0 \<in> set panel_finals"
    by (simp add: panel_finals_def)
  have w: "map weight (filter (\<lambda>e. problem_id (treatment e) = att_problem_id (panel_finals ! 0))
        panel_effects) = [1 / 2, 1 / 2]"
    by (simp add: panel_finals_def panel_effects_def panel_treated_def)
  from weight_normalization[OF panel_compute m] panel_compute m w show ?thesis
    by blast
qed

text \<open>
  C10. For every problem of the per-problem table, the count-weighted probability uplift
  that the aggregation computes equals the sum of weight times probability uplift over the
  problem's rows of the effect table.
\<close>

theorem probability_uplift_weighting:
  assumes "compute_causal_effects ms xs = Inr (eff, fe)" and "r \<in> set fe"
  shows "att_probability_uplift r
     = sum_list (map (\<lambda>e. weight e * probability_uplift e)
         (filter (\<lambda>e. problem_id (treatment e) = att_problem_id r) eff))"
proof -
  from assms(1) obtain lf where
    eff: "eff = effect_df ms (join_stats (treatment_stats lf) (baseline_stats ms lf))"
    and fe: "fe = final_effects eff"
    by (rule compute_Inr)
  let ?js = "cap_filter (count_filter ms (join_stats (treatment_stats lf) (baseline_stats ms lf)))"
  let ?p = "att_problem_id r"
  let ?g = "filter (\<lambda>e. problem_id (treatment e) = ?p) eff"
  have eff': "eff = map (effect_of ?js) ?js" unfolding eff effect_df_rows ..
  from assms(2) fe have r: "r = final_agg (?p, ?g)" using final_effects_row[of r eff] by simp
  let ?T = "real (sum_list (map (\<lambda>e. treated_count (treatment e)) ?g))"
  have tot: "real (total_treated ?js ?p) = ?T"
    unfolding eff' by (simp add: filter_map_effect total_treated_def comp_def effect_of_def split_def)
  have w: "weight e * probability_uplift e
      = probability_uplift e * real (treated_count (treatment e)) / ?T" if "e \<in> set ?g" for e
  proof -
    from that obtain tb where "e = effect_of ?js tb" "problem_id (fst tb) = ?p"
      unfolding eff' by (auto simp: effect_of_def)
    then show ?thesis using tot by (simp add: effect_of_def)
  qed
  have "att_probability_uplift r
      = sum_list (map (\<lambda>e. probability_uplift e * real (treated_count (treatment e))) ?g) / ?T"
    by (subst r) (simp add: final_agg_def)
  also have "\<dots> = sum_list (map (\<lambda>e. probability_uplift e * real (treated_count (treatment e)) / ?T) ?g)"
    by (rule sum_list_div_const[symmetric])
  also have "\<dots> = sum_list (map (\<lambda>e. weight e * probability_uplift e) ?g)"
    by (rule sum_list_map_cong_set) (simp add: w)
  finally show ?thesis .
qed

theorem probability_uplift_weighting_witness:
  "compute_causal_effects 50 panel = Inr (panel_effects, panel_finals)
   \<and> panel_finals ! 0 \<in> set panel_finals
   \<and> att_probability_uplift (panel_finals ! 0) = - (1 / 102)
   \<and> att_probability_uplift (panel_finals ! 0)
       = sum_list (map (\<lambda>e. weight e * probability_uplift e)
           (filter (\<lambda>e. problem_id (treatment e) = att_problem_id (panel_finals ! 0))
              panel_effects))"
proof -
  have m: "panel_finals ! 0 \<in> set panel_finals"
    by (simp add: panel_finals_def)
  have v: "att_probability_uplift (panel_finals ! 0) = - (1 / 102)"
    by (simp add: panel_finals_def)
  from probability_uplift_weighting[OF panel_compute m] panel_compute m v show ?thesis
    by blast
qed

section \<open>Significance tester properties\<close>

lemma zero_std_err_variance:
  "att_std_err (with_significance Phi r) = Fin 0 \<longleftrightarrow> att_variance r = 0"
  by (auto simp: with_significance_def fl_sqrt_def)

lemma significant_effects_set:
  "set (significant_effects Phi fe)
     = with_significance Phi ` {r \<in> set fe. fl_less (p_value (with_significance Phi r)) P_VALUE_THRESHOLD}"
  by (auto simp: significant_effects_def)

lemma with_significance_inj:
  "with_significance Phi r = with_significance Phi r' \<Longrightarrow> r = r'"
  by (simp add: with_significance_def)

text \<open>
  C2, as the specification states it, fails: the significance step divides by the
  standard error and filters on the p-value with no test for a zero standard error. A row
  with zero variance and a non-zero score gets an infinite z-score and the p-value 0, and
  is kept.
\<close>

theorem zero_std_err_counterexample:
  "att_std_err (with_significance unit_step degenerate_row) = Fin 0
   \<and> z_score (with_significance unit_step degenerate_row) = NInf
   \<and> p_value (with_significance unit_step degenerate_row) = Fin 0
   \<and> significant_effects unit_step [degenerate_row]
       = [with_significance unit_step degenerate_row]"
  by (simp add: degenerate_row_def with_significance_def significant_effects_def fl_sqrt_def
      fl_div_def P_VALUE_THRESHOLD_def)

text \<open>
  C2, amended. For a row whose standard error is 0, the z-score is the score over 0: NaN
  when the score is 0, and an infinity of the sign of the score otherwise. The row passes
  the filter \<open>p_value < threshold\<close> exactly when its score is not 0, so a problem with
  zero standard error is excluded from the significant problems when its ATT is 0, with
  a NaN z-score that is not written, and is kept, with an infinite z-score and the p-value
  0, when its ATT is not 0.
\<close>

theorem zero_std_err_significance:
  assumes "att_std_err (with_significance Phi r) = Fin 0"
  shows "z_score (with_significance Phi r)
       = (if att_score r = 0 then NaN else if 0 < att_score r then PInf else NInf)
    \<and> p_value (with_significance Phi r) = (if att_score r = 0 then NaN else Fin 0)
    \<and> (with_significance Phi r \<in> set (significant_effects Phi fe)
         \<longleftrightarrow> r \<in> set fe \<and> att_score r \<noteq> 0)"
proof -
  from assms have v: "att_variance r = 0"
    by (simp add: zero_std_err_variance)
  have z: "z_score (with_significance Phi r)
       = (if att_score r = 0 then NaN else if 0 < att_score r then PInf else NInf)"
    by (simp add: with_significance_def v fl_sqrt_def fl_div_def)
  have p: "p_value (with_significance Phi r) = (if att_score r = 0 then NaN else Fin 0)"
    by (simp add: with_significance_def v fl_sqrt_def fl_div_def)
  then have f: "fl_less (p_value (with_significance Phi r)) P_VALUE_THRESHOLD \<longleftrightarrow> att_score r \<noteq> 0"
    by (simp add: P_VALUE_THRESHOLD_def)
  have "with_significance Phi r \<in> set (significant_effects Phi fe)
      \<longleftrightarrow> r \<in> set fe \<and> att_score r \<noteq> 0"
    unfolding significant_effects_set using f by (auto dest: with_significance_inj)
  with z p show ?thesis
    by blast
qed

text \<open>Problem \<open>R\<close> of the panel: one stratum, in which no rating moves, and an ATT of 0.\<close>

theorem zero_std_err_significance_witness:
  "att_std_err (with_significance unit_step (panel_finals ! 1)) = Fin 0
   \<and> att_score (panel_finals ! 1) = 0
   \<and> z_score (with_significance unit_step (panel_finals ! 1)) = NaN
   \<and> with_significance unit_step (panel_finals ! 1)
       \<notin> set (significant_effects unit_step panel_finals)"
proof -
  have se: "att_std_err (with_significance unit_step (panel_finals ! 1)) = Fin 0"
    by (simp add: panel_finals_def with_significance_def fl_sqrt_def)
  have a: "att_score (panel_finals ! 1) = 0"
    by (simp add: panel_finals_def)
  from zero_std_err_significance[OF se, of panel_finals] a se show ?thesis
    by simp
qed

section \<open>The worked scenario\<close>

lemma scenario_rows:
  "scenario_effects =
     [\<lparr>treatment = fst stratum_A, baseline = snd stratum_A, uplift = 40,
       bucket_variance = Some (37 / 2), probability_uplift = 1 / 10,
       total_treated_samples = 150, weight = 2 / 3\<rparr>,
      \<lparr>treatment = fst stratum_B, baseline = snd stratum_B, uplift = 20,
       bucket_variance = Some (441 / 20), probability_uplift = 1 / 20,
       total_treated_samples = 150, weight = 1 / 3\<rparr>]"
  by (simp add: scenario_effects_def effect_df_def count_filter_def cap_filter_def uplift_of_def
      stratum_A_def stratum_B_def effect_of_def total_treated_def bucket_variance_of_def)

lemma scenario_final:
  "scenario_finals =
     [\<lparr>att_problem_id = ''P'', att_score = 100 / 3, att_variance = 1921 / 180,
       att_total_treated_samples = Some 150, avg_rating_level = Some (31 / 2),
       att_probability_uplift = 1 / 12\<rparr>]"
  by (simp add: scenario_finals_def scenario_rows final_effects_def group_by_def final_agg_def
      stratum_A_def stratum_B_def sum_nulls_def nth_opt_def mean_nulls_def mean_def power_divide)

lemma scenario_sqrt_bounds:
  "10000 / 3063 < sqrt (1921 / 180)" "sqrt (1921 / 180) < 1000 / 306"
  "326 / 100 < sqrt (1921 / 180)" "sqrt (1921 / 180) < 327 / 100"
proof -
  show "10000 / 3063 < sqrt (1921 / 180)"
    by (rule real_less_rsqrt) (simp add: power2_eq_square)
  show "sqrt (1921 / 180) < 1000 / 306"
    by (rule real_less_lsqrt) (simp_all add: power2_eq_square)
  show "326 / 100 < sqrt (1921 / 180)"
    by (rule real_less_rsqrt) (simp add: power2_eq_square)
  show "sqrt (1921 / 180) < 327 / 100"
    by (rule real_less_lsqrt) (simp_all add: power2_eq_square)
qed

text \<open>
  C1. In the worked scenario the weights are 2/3 and 1/3, the uplifts 40 and 20, the bucket
  variances 18.5 and 22.05, the ATT 100/3 (33.33), its variance 1921/180 (10.67), the
  standard error between 3.26 and 3.27, and the z-score between 10.2 and 10.21. For a
  distribution function \<open>Phi\<close> that is monotone, at most 1, and at least
  \<open>1 - 1 / 10 ^ 23\<close> at 10, as the standard normal one is, the p-value lies between 0
  and \<open>2 / 10 ^ 23\<close>, below the threshold, and the problem is retained.
\<close>

theorem worked_scenario:
  assumes mono: "\<And>x y. x \<le> y \<Longrightarrow> Phi x \<le> Phi y"
    and le1: "\<And>x. Phi x \<le> 1"
    and tail: "1 - 1 / 10 ^ 23 \<le> Phi 10"
  shows "map weight scenario_effects = [2 / 3, 1 / 3]
    \<and> map uplift scenario_effects = [40, 20]
    \<and> map bucket_variance scenario_effects = [Some (37 / 2), Some (441 / 20)]
    \<and> map att_score scenario_finals = [100 / 3]
    \<and> map att_variance scenario_finals = [1921 / 180]
    \<and> (\<exists>se z p.
          map (\<lambda>r. (att_std_err r, z_score r, p_value r))
            (map (with_significance Phi) scenario_finals) = [(Fin se, Fin z, Fin p)]
          \<and> 326 / 100 < se \<and> se < 327 / 100
          \<and> 102 / 10 < z \<and> z < 1021 / 100
          \<and> 0 \<le> p \<and> p \<le> 2 / 10 ^ 23 \<and> p < P_VALUE_THRESHOLD)
    \<and> map (\<lambda>r. att_problem_id (effect r)) (significant_effects Phi scenario_finals) = [''P'']"
proof -
  let ?se = "sqrt (1921 / 180)"
  let ?z = "(100 / 3) / ?se"
  let ?p = "2 * (1 - Phi \<bar>?z\<bar>)"
  note b = scenario_sqrt_bounds
  have se_pos: "0 < ?se" using b(3) by linarith
  have z_lo: "102 / 10 < ?z" using b(2) se_pos by (simp add: pos_less_divide_eq)
  have z_hi: "?z < 1021 / 100" using b(1) se_pos by (simp add: pos_divide_less_eq)
  have "Phi 10 \<le> Phi \<bar>?z\<bar>" using z_lo by (intro mono) linarith
  with tail have p_hi: "?p \<le> 2 / 10 ^ 23" by simp
  have p_lo: "0 \<le> ?p" using le1[of "\<bar>?z\<bar>"] by simp
  have p_sig: "?p < P_VALUE_THRESHOLD" using p_hi by (simp add: P_VALUE_THRESHOLD_def)
  have sig: "map (\<lambda>r. (att_std_err r, z_score r, p_value r))
      (map (with_significance Phi) scenario_finals) = [(Fin ?se, Fin ?z, Fin ?p)]"
    using se_pos by (simp add: scenario_final with_significance_def fl_sqrt_def fl_div_def)
  have kept: "map (\<lambda>r. att_problem_id (effect r)) (significant_effects Phi scenario_finals) = [''P'']"
    using se_pos p_sig
    by (simp add: significant_effects_def scenario_final with_significance_def fl_sqrt_def fl_div_def)
  have ex: "\<exists>se z p.
          map (\<lambda>r. (att_std_err r, z_score r, p_value r))
            (map (with_significance Phi) scenario_finals) = [(Fin se, Fin z, Fin p)]
          \<and> 326 / 100 < se \<and> se < 327 / 100
          \<and> 102 / 10 < z \<and> z < 1021 / 100
          \<and> 0 \<le> p \<and> p \<le> 2 / 10 ^ 23 \<and> p < P_VALUE_THRESHOLD"
  proof (intro exI conjI)
    show "map (\<lambda>r. (att_std_err r, z_score r, p_value r))
        (map (with_significance Phi) scenario_finals) = [(Fin ?se, Fin ?z, Fin ?p)]"
      by (rule sig)
  qed (rule b(3) b(4) z_lo z_hi p_lo p_hi p_sig)+
  have rows: "map weight scenario_effects = [2 / 3, 1 / 3]"
    "map uplift scenario_effects = [40, 20]"
    "map bucket_variance scenario_effects = [Some (37 / 2), Some (441 / 20)]"
    by (simp_all add: scenario_rows)
  have fin: "map att_score scenario_finals = [100 / 3]" "map att_variance scenario_finals = [1921 / 180]"
    by (simp_all add: scenario_final)
  from rows fin ex kept show ?thesis by blast
qed

text \<open>
  The distribution function of the point mass at 0 is monotone, at most 1, and 1 at 10.
\<close>

theorem worked_scenario_witness:
  "1 - 1 / 10 ^ 23 \<le> unit_step 10
   \<and> unit_step 10 \<le> 1
   \<and> map weight scenario_effects = [2 / 3, 1 / 3]
   \<and> map att_score scenario_finals = [100 / 3]
   \<and> map (\<lambda>r. att_problem_id (effect r)) (significant_effects unit_step scenario_finals) = [''P'']"
proof -
  have m: "\<And>x y. x \<le> y \<Longrightarrow> unit_step x \<le> unit_step y"
    by (simp add: unit_step_def)
  have l: "\<And>x. unit_step x \<le> 1"
    by (simp add: unit_step_def)
  have t: "1 - 1 / 10 ^ 23 \<le> unit_step 10"
    by (simp add: unit_step_def)
  from worked_scenario[of unit_step, OF m l t] l[of 10] t show ?thesis
    by blast
qed

section \<open>Treatment aggregator\<close>

text \<open>
  C3. The treatment statistics are taken over all submissions to a problem, whatever their
  verdict: in the panel of two users no submission is accepted, and the pipeline still
  reports treated groups of 50 submissions for \<open>P\<close> (twice) and \<open>R\<close>.
\<close>

theorem treatment_counts_rejected_submissions:
  "filter (\<lambda>e. verdict e = ''OK'') panel = []
   \<and> compute_causal_effects 50 panel = Inr (panel_effects, panel_finals)
   \<and> map (\<lambda>e. (problem_id (treatment e), treated_count (treatment e))) panel_effects
       = [(''P'', 50), (''P'', 50), (''R'', 50)]"
proof -
  have "filter (\<lambda>e. verdict e = ''OK'') panel = []"
    by (simp add: panel_def panel_event_def filter_empty_conv del: upt_Suc upt_rec_numeral)
  moreover have "map (\<lambda>e. (problem_id (treatment e), treated_count (treatment e))) panel_effects
       = [(''P'', 50), (''P'', 50), (''R'', 50)]"
    by (simp add: panel_effects_def panel_treated_def)
  ultimately show ?thesis
    using panel_compute by simp
qed

section \<open>Placebo validator\<close>

lemma filter_key_le_one:
  "distinct (map f xs) \<Longrightarrow> length (filter (\<lambda>y. f y = k) xs) \<le> 1"
proof (induction xs)
  case Nil
  then show ?case by simp
next
  case (Cons a xs)
  show ?case
  proof (cases "f a = k")
    case True
    with Cons.prems have "k \<notin> f ` set xs" by simp
    then have "\<forall>y\<in>set xs. f y \<noteq> k" by blast
    then have "filter (\<lambda>y. f y = k) xs = []" by (simp add: filter_empty_conv)
    with True show ?thesis by simp
  next
    case False
    with Cons show ?thesis by simp
  qed
qed

lemma concat_map_Nil: "concat (map (\<lambda>t. []) xs) = []"
  by (induction xs) simp_all

lemma baseline_placebo_empty: "baseline_placebo lf = []"
proof -
  let ?agg = "map baseline_placebo_of (group_by placebo_bins lf)"
  have "map baseline_placebo_bins ?agg = remdups (map placebo_bins lf)"
    by (simp add: group_by_def baseline_placebo_of_def comp_def)
  then have d: "distinct (map baseline_placebo_bins ?agg)" by simp
  have "\<not> 20 \<le> length (filter (\<lambda>a'. baseline_placebo_bins a' = k) ?agg)" for k
    using filter_key_le_one[OF d, of k] by linarith
  then show ?thesis
    by (simp add: baseline_placebo_def Let_def filter_empty_conv)
qed

lemma run_placebo_test_empty:
  "run_placebo_test xs = (case placebo_prepare xs of Inl err \<Rightarrow> Inl err | Inr lf \<Rightarrow> Inr [])"
  by (simp add: run_placebo_test_def baseline_placebo_empty bias_df_def aggregated_bias_def
      group_by_def concat_map_Nil split: sum.splits)

lemma placebo_panel_prepare: "placebo_prepare placebo_panel = Inr placebo_panel_lf"
  by code_simp

lemma placebo_panel_groups:
  "group_by (\<lambda>r. (id_of_submission_task (placebo_ev r), placebo_bins r)) placebo_panel_lf
   = [((''Q'', Some 10, Some 5, Some 5), map (placebo_panel_row ''a'') [20..<50]),
      ((''R'', Some 10, Some 5, Some 5), map (placebo_panel_row ''b'') [20..<60])]"
  by code_simp

lemma placebo_panel_stratum:
  "group_by placebo_bins placebo_panel_lf = [((Some 10, Some 5, Some 5), placebo_panel_lf)]"
  by code_simp

lemma placebo_panel_stratum_mean: "mean (map placebo_gain_20 placebo_panel_lf) = 60 / 7"
  by code_simp

lemma mean_replicate: "xs \<noteq> [] \<Longrightarrow> mean (map (\<lambda>_. c) xs) = c"
  by (rule mean_const) auto

lemma placebo_gain_a: "placebo_gain_20 \<circ> placebo_panel_row ''a'' = (\<lambda>_. 20)"
  by (simp add: placebo_panel_row_def fun_eq_iff)

lemma placebo_gain_b: "placebo_gain_20 \<circ> placebo_panel_row ''b'' = (\<lambda>_. 0)"
  by (simp add: placebo_panel_row_def fun_eq_iff)

lemma placebo_improved_a:
  "(\<lambda>r. real (placebo_improved_20 r)) \<circ> placebo_panel_row ''a'' = (\<lambda>_. 1)"
  by (simp add: placebo_panel_row_def fun_eq_iff)

lemma placebo_improved_b:
  "(\<lambda>r. real (placebo_improved_20 r)) \<circ> placebo_panel_row ''b'' = (\<lambda>_. 0)"
  by (simp add: placebo_panel_row_def fun_eq_iff)

lemma placebo_panel_treated_rows: "treated_placebo placebo_panel_lf = placebo_panel_treated"
  unfolding treated_placebo_def placebo_panel_groups
  by (simp add: treated_placebo_of_def placebo_gain_a placebo_gain_b placebo_improved_a
      placebo_improved_b mean_replicate placebo_panel_treated_def del: upt_Suc upt_rec_numeral)

text \<open>
  C4. On the panel with a rating trend, problem \<open>Q\<close> has 30 placebo submissions with a
  mean gain of 20 in a stratum of 70 placebo submissions with a mean gain of 60/7, so its
  selection bias is positive. The baseline count is taken over the aggregated frame, where
  every stratum has exactly one row, so no baseline row reaches the threshold of 20 and the
  bias table is empty.
\<close>

theorem placebo_bias_table_empty:
  "placebo_prepare placebo_panel = Inr placebo_panel_lf
   \<and> treated_placebo placebo_panel_lf = placebo_panel_treated
   \<and> group_by placebo_bins placebo_panel_lf = [((Some 10, Some 5, Some 5), placebo_panel_lf)]
   \<and> length placebo_panel_lf = 70
   \<and> mean (map placebo_gain_20 placebo_panel_lf) = 60 / 7
   \<and> run_placebo_test placebo_panel = Inr []"
proof -
  have "length placebo_panel_lf = 70"
    by (simp add: placebo_panel_lf_def)
  moreover have "run_placebo_test placebo_panel = Inr []"
    by (simp add: run_placebo_test_empty placebo_panel_prepare)
  ultimately show ?thesis
    using placebo_panel_prepare placebo_panel_treated_rows placebo_panel_stratum
      placebo_panel_stratum_mean by simp
qed

end
